theory Spec2Isabelle
  imports Complex_Main "HOL-Library.AList" "HOL-Library.Char_ord" "HOL-Library.List_Lexorder"
begin

section \<open>Values, errors and dictionaries\<close>

text \<open>
  The program (\<^verbatim>\<open>app.py\<close>) works on decoded JSON. A value read from an upstream series is
  \<^verbatim>\<open>None\<close>, a number, a string or a list. A number is modelled by its exact value: an
  \<^verbatim>\<open>int\<close> and a \<^verbatim>\<open>float\<close> of the same value are the same \<open>PNum\<close>, as they are for
  Python's \<^verbatim>\<open>==\<close> and for membership in a set. Comparisons and \<^verbatim>\<open>round\<close> are exact on
  such values in Python too. The products and sums of the unit conversions are computed
  exactly here; two float computations whose rounding shows in the result at ordinary inputs
  are not computed at all but taken as parameters: the mean of several temperatures
  (\<open>py_mean\<close>, line 380) and the pressure conversion (\<open>to_inhg\<close>, line 160). NaN and
  infinities are outside the model. JSON booleans and nested objects do not occur in the
  series and are left out.
\<close>

datatype pyval = PNone | PNum real | PStr string | PList "pyval list"

text \<open>Every exception of the source is a value. \<open>RequestError\<close> stands for whatever
  \<^verbatim>\<open>requests.get(...).json()\<close> raises (transport failure, timeout, undecodable body).\<close>

datatype error = TypeError | RequestError

text \<open>A Python \<^verbatim>\<open>dict\<close> with string keys: an association list in insertion order.
  \<open>map_of\<close> is \<^verbatim>\<open>d.get(k)\<close>, \<open>AList.update\<close> is \<^verbatim>\<open>d[k] = v\<close> (an existing key keeps its
  place, a new key goes last). The keys of a dict are distinct.\<close>

type_synonym pydict = "(string \<times> pyval) list"

section \<open>Missing values (lines 13-17)\<close>

definition MISSING :: "pyval set" where
  "MISSING = {PNum (- 999), PNum (- 9999), PNum (- 99), PNone}"

text \<open>\<^verbatim>\<open>v in MISSING\<close> hashes \<^verbatim>\<open>v\<close>; a list is unhashable and the test raises TypeError.\<close>

fun hashable :: "pyval \<Rightarrow> bool" where
  "hashable (PList _) = False"
| "hashable _ = True"

definition in_MISSING :: "pyval \<Rightarrow> error + bool" where
  "in_MISSING v = (if hashable v then Inr (v \<in> MISSING) else Inl TypeError)"

definition mv :: "pyval \<Rightarrow> pyval \<Rightarrow> error + pyval" where
  "mv v dflt = (case in_MISSING v of Inl e \<Rightarrow> Inl e | Inr b \<Rightarrow> Inr (if b then dflt else v))"

section \<open>Rounding\<close>

text \<open>Python's \<^verbatim>\<open>round(x)\<close>: the nearest integer, a tie going to the even one.\<close>

definition py_round :: "real \<Rightarrow> int" where
  "py_round x =
     (let f = \<lfloor>x\<rfloor>; r = x - of_int f
      in if r < 1 / 2 then f else if 1 / 2 < r then f + 1 else if even f then f else f + 1)"

text \<open>\<^verbatim>\<open>round(x, n)\<close>: \<^verbatim>\<open>x\<close> rounded to \<^verbatim>\<open>n\<close> decimals, ties to even.\<close>

definition py_round_nd :: "real \<Rightarrow> nat \<Rightarrow> real" where
  "py_round_nd x n = of_int (py_round (x * 10 ^ n)) / 10 ^ n"

section \<open>Unit conversion (lines 46-49, 157)\<close>

text \<open>Arithmetic on a value that is not a number raises TypeError.\<close>

fun as_num :: "pyval \<Rightarrow> error + real" where
  "as_num (PNum x) = Inr x"
| "as_num _ = Inl TypeError"

fun convert_temp :: "pyval \<Rightarrow> bool \<Rightarrow> error + pyval" where
  "convert_temp PNone to_celsius = Inr PNone"
| "convert_temp (PNum temp_f) to_celsius =
     (if to_celsius then Inr (PNum (py_round_nd ((temp_f - 32) * 5 / 9) 1))
      else Inr (PNum (py_round_nd temp_f 1)))"
| "convert_temp _ to_celsius = Inl TypeError"

text \<open>The display conversion of the builders, \<^verbatim>\<open>round((temp_c * 9/5) + 32)\<close>
  (lines 157, 158, 250-252, 315, 316, 591).\<close>

definition to_display_f :: "real \<Rightarrow> int" where
  "to_display_f temp_c = py_round (temp_c * 9 / 5 + 32)"

section \<open>Condition classifier (lines 185-197)\<close>

text \<open>The icons are the UTF-8 bytes of the source's emoji literals.\<close>

definition icon_rainy :: string where
  "icon_rainy = [CHR 0xF0, CHR 0x9F, CHR 0x8C, CHR 0xA7, CHR 0xEF, CHR 0xB8, CHR 0x8F]"

definition icon_light_rain :: string where
  "icon_light_rain = [CHR 0xF0, CHR 0x9F, CHR 0x8C, CHR 0xA6, CHR 0xEF, CHR 0xB8, CHR 0x8F]"

definition icon_cloudy :: string where
  "icon_cloudy = [CHR 0xE2, CHR 0x98, CHR 0x81, CHR 0xEF, CHR 0xB8, CHR 0x8F]"

definition icon_partly_cloudy :: string where
  "icon_partly_cloudy = [CHR 0xE2, CHR 0x9B, CHR 0x85]"

definition icon_clear :: string where
  "icon_clear = [CHR 0xE2, CHR 0x98, CHR 0x80, CHR 0xEF, CHR 0xB8, CHR 0x8F]"

definition get_weather_condition :: "real \<Rightarrow> real \<Rightarrow> real \<Rightarrow> bool \<Rightarrow> string \<times> string" where
  "get_weather_condition temp_c humidity precip_amount is_hourly =
     (case (if is_hourly
            then (if 2 \<le> precip_amount then Some (''Rainy'', icon_rainy)
                  else if 2 / 10 \<le> precip_amount then Some (''Light Rain'', icon_light_rain)
                  else None)
            else (if 10 \<le> precip_amount then Some (''Rainy'', icon_rainy)
                  else if 1 \<le> precip_amount then Some (''Light Rain'', icon_light_rain)
                  else None))
      of Some returned \<Rightarrow> returned
       | None \<Rightarrow>
           if 80 < humidity then (''Cloudy'', icon_cloudy)
           else if 60 < humidity then (''Partly Cloudy'', icon_partly_cloudy)
           else (''Clear'', icon_clear))"

section \<open>Response shaper (lines 52-80)\<close>

text \<open>
  \<^verbatim>\<open>str.lower()\<close> on a string held as its UTF-8 bytes. The ASCII letters are lower-cased, and
  so is the one code point outside ASCII whose lower case is an ASCII letter: the Kelvin sign
  U+212A (bytes E2 84 AA) becomes \<open>k\<close>. For every other code point outside ASCII Python's
  result is again outside ASCII; the model keeps its bytes, which makes no difference to
  a comparison with an ASCII literal, the only use the program makes of \<^verbatim>\<open>lower()\<close>.
\<close>

definition lower_char :: "char \<Rightarrow> char" where
  "lower_char c = (if CHR ''A'' \<le> c \<and> c \<le> CHR ''Z'' then char_of (of_char c + (32::nat)) else c)"

fun lower :: "string \<Rightarrow> string" where
  "lower (c1 # c2 # c3 # s) =
     (if c1 = CHR 0xE2 \<and> c2 = CHR 0x84 \<and> c3 = CHR 0xAA then CHR ''k'' # lower s
      else lower_char c1 # lower (c2 # c3 # s))"
| "lower (c # s) = lower_char c # lower s"
| "lower [] = []"

declare lower.simps [simp del]

text \<open>The response object the routes build (lines 513-519 and 543-548): \<^verbatim>\<open>'current'\<close> is a
  dict, \<^verbatim>\<open>'hourly'\<close> and \<^verbatim>\<open>'forecast'\<close> are lists of dicts, and each of the three keys, like
  \<^verbatim>\<open>'unit'\<close>, may be absent (\<open>None\<close>).\<close>

record response =
  location :: string
  current :: "pydict option"
  hourly :: "pydict list option"
  forecast :: "pydict list option"
  timestamp :: string
  source :: string
  unit :: "string option"

text \<open>The loop \<^verbatim>\<open>for k in [...]: if k in d and d[k] is not None: d[k] = convert_temp(d[k], c)\<close>.\<close>

fun convert_fields :: "string list \<Rightarrow> bool \<Rightarrow> pydict \<Rightarrow> error + pydict" where
  "convert_fields [] is_celsius d = Inr d"
| "convert_fields (k # ks) is_celsius d =
     (case map_of d k of
        None \<Rightarrow> convert_fields ks is_celsius d
      | Some v \<Rightarrow>
          if v = PNone then convert_fields ks is_celsius d
          else (case convert_temp v is_celsius of
                  Inl e \<Rightarrow> Inl e
                | Inr v' \<Rightarrow> convert_fields ks is_celsius (AList.update k v' d)))"

text \<open>The loops over the entries of \<^verbatim>\<open>'hourly'\<close> and \<^verbatim>\<open>'forecast'\<close>.\<close>

fun convert_entries :: "string list \<Rightarrow> bool \<Rightarrow> pydict list \<Rightarrow> error + pydict list" where
  "convert_entries ks is_celsius [] = Inr []"
| "convert_entries ks is_celsius (h # hs) =
     (case convert_fields ks is_celsius h of
        Inl e \<Rightarrow> Inl e
      | Inr h' \<Rightarrow>
          (case convert_entries ks is_celsius hs of
             Inl e \<Rightarrow> Inl e
           | Inr hs' \<Rightarrow> Inr (h' # hs')))"

definition unit_celsius :: string where
  "unit_celsius = [CHR 0xC2, CHR 0xB0, CHR ''C'']"

definition unit_fahrenheit :: string where
  "unit_fahrenheit = [CHR 0xC2, CHR 0xB0, CHR ''F'']"

text \<open>A substructure is converted when its key is in the response.\<close>

fun if_present :: "('a \<Rightarrow> error + 'a) \<Rightarrow> 'a option \<Rightarrow> error + 'a option" where
  "if_present f None = Inr None"
| "if_present f (Some x) = (case f x of Inl e \<Rightarrow> Inl e | Inr y \<Rightarrow> Inr (Some y))"

definition format_weather_response :: "response \<Rightarrow> string \<Rightarrow> error + response" where
  "format_weather_response data unit_name =
     (let is_celsius = (lower unit_name = ''celsius'') in
      (case if_present (convert_fields [''temp'', ''feelsLike'', ''dewPoint'', ''high'', ''low'']
                          is_celsius) (current data) of
         Inl e \<Rightarrow> Inl e
       | Inr cur \<Rightarrow>
           (case if_present (convert_entries [''temp'', ''feelsLike'', ''dewPoint''] is_celsius)
                   (hourly data) of
              Inl e \<Rightarrow> Inl e
            | Inr hrs \<Rightarrow>
                (case if_present (convert_entries [''high'', ''low''] is_celsius)
                        (forecast data) of
                   Inl e \<Rightarrow> Inl e
                 | Inr fc \<Rightarrow>
                     Inr (data\<lparr>current := cur, hourly := hrs, forecast := fc,
                               unit := Some (if is_celsius then unit_celsius
                                             else unit_fahrenheit)\<rparr>)))))"

section \<open>Hourly series flattener (lines 83-99)\<close>

definition digit_char :: "nat \<Rightarrow> char" where
  "digit_char d = char_of (48 + d)"

fun decimal :: "nat \<Rightarrow> string" where
  "decimal n = (if n < 10 then [digit_char n] else decimal (n div 10) @ [digit_char (n mod 10)])"

declare decimal.simps [simp del]

text \<open>The format \<^verbatim>\<open>{i:02d}\<close>: decimal digits, padded with zeros to width 2.\<close>

definition fmt_02d :: "nat \<Rightarrow> string" where
  "fmt_02d i = (let s = decimal i in replicate (2 - length s) CHR ''0'' @ s)"

text \<open>\<^verbatim>\<open>for i, v in enumerate(vals): out[f"{day_key}{i:02d}"] = v\<close>, from index \<open>i\<close> on.\<close>

fun expand_day :: "string \<Rightarrow> nat \<Rightarrow> pyval list \<Rightarrow> pydict \<Rightarrow> pydict" where
  "expand_day day_key i [] out = out"
| "expand_day day_key i (v # vals) out =
     expand_day day_key (i + 1) vals (AList.update (day_key @ fmt_02d i) v out)"

text \<open>\<^verbatim>\<open>for day_key, vals in series_dict.items(): if isinstance(vals, list): ...\<close>\<close>

fun flatten_days :: "pydict \<Rightarrow> pydict \<Rightarrow> pydict" where
  "flatten_days [] out = out"
| "flatten_days ((day_key, vals) # items) out =
     (case vals of
        PList vs \<Rightarrow> flatten_days items (expand_day day_key 0 vs out)
      | _ \<Rightarrow> flatten_days items out)"

text \<open>The sample is the first value of the dict in insertion order.\<close>

definition flatten_hourly_series :: "pydict \<Rightarrow> pydict" where
  "flatten_hourly_series series_dict =
     (case series_dict of
        [] \<Rightarrow> []
      | (first_key, sample) # rest \<Rightarrow>
          (case sample of
             PList vs \<Rightarrow> flatten_days series_dict []
           | _ \<Rightarrow> series_dict))"

text \<open>\<^verbatim>\<open>isinstance(v, list)\<close>\<close>

fun is_list :: "pyval \<Rightarrow> bool" where
  "is_list (PList _) = True"
| "is_list _ = False"

text \<open>The key the specification gives an expanded entry: the day key followed by the hour
  as two decimal digits.\<close>

definition hour_key :: "string \<Rightarrow> nat \<Rightarrow> string" where
  "hour_key day_key h = day_key @ [digit_char (h div 10), digit_char (h mod 10)]"

text \<open>The entries the specification gives a day: one per element of its list, in order.\<close>

definition day_entries :: "string \<Rightarrow> pyval \<Rightarrow> pydict" where
  "day_entries day_key vals =
     (case vals of
        PList vs \<Rightarrow> map (\<lambda>h. (hour_key day_key h, vs ! h)) [0..<length vs]
      | _ \<Rightarrow> [])"

section \<open>Hourly builder (lines 101-183)\<close>

definition and_then :: "error + 'a \<Rightarrow> ('a \<Rightarrow> error + 'b) \<Rightarrow> error + 'b" where
  "and_then m f = (case m of Inl e \<Rightarrow> Inl e | Inr x \<Rightarrow> f x)"

text \<open>\<^verbatim>\<open>d.get(k)\<close>: \<^verbatim>\<open>None\<close> for an absent key.\<close>

definition dict_get :: "pydict \<Rightarrow> string \<Rightarrow> pyval" where
  "dict_get d k = (case map_of d k of None \<Rightarrow> PNone | Some v \<Rightarrow> v)"

text \<open>\<^verbatim>\<open>mv(v, dflt)\<close> where the result goes into arithmetic or a comparison.\<close>

definition num_or :: "pyval \<Rightarrow> real \<Rightarrow> error + real" where
  "num_or v dflt = and_then (mv v (PNum dflt)) as_num"

text \<open>Line 160: \<^verbatim>\<open>round(mv(ps_kpa, 0) * 0.2953, 2) if ps_kpa not in MISSING else None\<close>.
  \<open>to_inhg x\<close> is \<^verbatim>\<open>round(x * 0.2953, 2)\<close> as the interpreter computes it: the product is a
  float product with the double nearest to 0.2953, so that 50 kPa gives 14.77 where the exact
  14.765 would round to 14.76.\<close>

definition pressure_inhg :: "(real \<Rightarrow> real) \<Rightarrow> pyval \<Rightarrow> error + pyval" where
  "pressure_inhg to_inhg ps_kpa =
     and_then (in_MISSING ps_kpa) (\<lambda>missing.
       if missing then Inr PNone
       else and_then (num_or ps_kpa 0) (\<lambda>x. Inr (PNum (to_inhg x))))"

text \<open>Lines 147-177, for a key whose temperature \<open>t2m\<close> is not missing. Every exception
  these lines can raise is a TypeError, so the order in which the fields are read does
  not show in the result.\<close>

definition hourly_row ::
  "string \<Rightarrow> (real \<Rightarrow> real) \<Rightarrow> (string \<Rightarrow> pydict) \<Rightarrow> string \<Rightarrow> pyval \<Rightarrow> error + pydict" where
  "hourly_row label to_inhg series key t2m =
     and_then (as_num t2m) (\<lambda>temp_c.
     and_then (num_or (dict_get (series ''RH2M'') key) 60) (\<lambda>rh0.
     and_then (num_or (dict_get (series ''WS2M'') key) 0) (\<lambda>ws0.
     and_then (num_or (dict_get (series ''PRECTOTCORR'') key) 0) (\<lambda>precip0.
     and_then (num_or (dict_get (series ''ALLSKY_SFC_UV_INDEX'') key) 0) (\<lambda>uvi0.
     and_then (num_or (dict_get (series ''T2MDEW'') key) (temp_c - 2)) (\<lambda>dew_c.
     and_then (pressure_inhg to_inhg (dict_get (series ''PS'') key)) (\<lambda>ps_inhg.
       let rh = max 0 (min 100 rh0);
           ws_ms = max 0 ws0;
           precip_mmhr = max 0 precip0;
           uvi = max 0 uvi0;
           temp_f = to_display_f temp_c;
           dew_f = to_display_f dew_c;
           wind_mph = py_round (ws_ms * 2237 / 1000);
           (cond, icon) = get_weather_condition temp_c rh precip_mmhr True
       in Inr [(''time'', PStr label),
               (''temp'', PNum (of_int temp_f)),
               (''icon'', PStr icon),
               (''precipitation'', PNum (py_round_nd precip_mmhr 2)),
               (''humidity'', PNum rh),
               (''wind'', PNum (of_int wind_mph)),
               (''feelsLike'', PNum (of_int temp_f)),
               (''description'', PStr cond),
               (''pressure'', ps_inhg),
               (''uvIndex'', PNum (of_int (py_round uvi))),
               (''dewPoint'', PNum (of_int dew_f))])))))))"

text \<open>Lines 140-145. \<open>strf_label key\<close> is the label
  \<^verbatim>\<open>datetime.strptime(key, '%Y%m%d%H').strftime('%I %p').lstrip('0')\<close> of the standard
  library, \<open>None\<close> when that raises; then the label is \<^verbatim>\<open>key[-2:]\<close>.\<close>

definition time_label :: "(string \<Rightarrow> string option) \<Rightarrow> string \<Rightarrow> string" where
  "time_label strf_label key =
     (case strf_label key of Some label \<Rightarrow> label | None \<Rightarrow> drop (length key - 2) key)"

text \<open>The loop of lines 134-177 over the sorted keys.\<close>

fun build_rows ::
  "(string \<Rightarrow> string option) \<Rightarrow> (real \<Rightarrow> real) \<Rightarrow> (string \<Rightarrow> pydict) \<Rightarrow> string list
   \<Rightarrow> error + pydict list" where
  "build_rows strf_label to_inhg series [] = Inr []"
| "build_rows strf_label to_inhg series (key # keys) =
     (case in_MISSING (dict_get (series ''T2M'') key) of
        Inl e \<Rightarrow> Inl e
      | Inr missing \<Rightarrow>
          if missing then build_rows strf_label to_inhg series keys
          else (case hourly_row (time_label strf_label key) to_inhg series key
                       (dict_get (series ''T2M'') key) of
                  Inl e \<Rightarrow> Inl e
                | Inr row \<Rightarrow>
                    (case build_rows strf_label to_inhg series keys of
                       Inl e \<Rightarrow> Inl e
                     | Inr rows \<Rightarrow> Inr (row # rows))))"

text \<open>The slice \<^verbatim>\<open>rows[-hours:]\<close> for any integer \<^verbatim>\<open>hours\<close>.\<close>

definition last_rows :: "int \<Rightarrow> 'a list \<Rightarrow> 'a list" where
  "last_rows hours rows =
     (if 0 < hours then drop (length rows - nat hours) rows else drop (nat (- hours)) rows)"

text \<open>Lines 181-182: \<^verbatim>\<open>if rows: rows[-1]['time'] = 'Now'\<close>.\<close>

definition label_now :: "pydict list \<Rightarrow> pydict list" where
  "label_now rows =
     (if rows = [] then [] else butlast rows @ [AList.update ''time'' (PStr ''Now'') (last rows)])"

text \<open>Lines 129-130: the flattened series of a parameter of the payload \<open>p\<close>, which maps a
  parameter name to its series (\<^verbatim>\<open>p.get(k, {})\<close> for an absent one).\<close>

definition power_series :: "(string \<times> pydict) list \<Rightarrow> string \<Rightarrow> pydict" where
  "power_series p k = flatten_hourly_series (case map_of p k of None \<Rightarrow> [] | Some d \<Rightarrow> d)"

text \<open>Line 132: the keys of the temperature and the precipitation series, without
  repetition, in ascending order. Python orders strings by code point, which is the
  lexicographic order of their UTF-8 bytes; for keys \<^verbatim>\<open>YYYYMMDDHH\<close> it is the order of time.\<close>

definition all_keys :: "(string \<times> pydict) list \<Rightarrow> string list" where
  "all_keys p =
     sort (remdups (map fst (power_series p ''T2M'') @ map fst (power_series p ''PRECTOTCORR'')))"

text \<open>\<open>fetched\<close> is what \<^verbatim>\<open>requests.get(...).json()\<close> gave: an exception, a body without
  \<^verbatim>\<open>properties.parameter\<close> (\<open>None\<close>), or the parameter dict \<^verbatim>\<open>p\<close>.\<close>

definition get_power_hourly ::
  "(string \<Rightarrow> string option) \<Rightarrow> (real \<Rightarrow> real) \<Rightarrow> error + (string \<times> pydict) list option \<Rightarrow> int
   \<Rightarrow> error + pydict list" where
  "get_power_hourly strf_label to_inhg fetched hours =
     (case fetched of
        Inl e \<Rightarrow> Inl e
      | Inr None \<Rightarrow> Inr []
      | Inr (Some p) \<Rightarrow>
          (case build_rows strf_label to_inhg (power_series p) (all_keys p) of
             Inl e \<Rightarrow> Inl e
           | Inr rows \<Rightarrow> Inr (label_now (last_rows hours rows))))"

section \<open>Event advice (lines 330-481)\<close>

text \<open>The \<^verbatim>\<open>hourly\<close> object of the forecast provider: parallel arrays, a sample being a
  number or \<^verbatim>\<open>null\<close>. An absent array is the empty list, as \<^verbatim>\<open>hourly.get(name, [])\<close> makes
  it.\<close>

record forecast_hourly =
  times :: "string list"
  temperature_2m :: "real option list"
  precipitation :: "real option list"
  precipitation_probability :: "real option list"
  windspeed_10m :: "real option list"
  cloudcover :: "real option list"
  uv_index :: "real option list"

text \<open>An entry of \<^verbatim>\<open>window\<close> (lines 361-369).\<close>

record entry =
  time :: string
  temp_c :: "real option"
  precip_mm :: "real option"
  pop :: "real option"
  wind_mph :: real
  cloud :: "real option"
  uv :: "real option"

text \<open>\<^verbatim>\<open>xs[i] if i < len(xs) else d\<close>\<close>

definition get_or :: "'a list \<Rightarrow> nat \<Rightarrow> 'a \<Rightarrow> 'a" where
  "get_or xs i d = (if i < length xs then xs ! i else d)"

text \<open>A \<^verbatim>\<open>null\<close> wind sample makes the product of line 366 raise TypeError.\<close>

definition make_entry :: "forecast_hourly \<Rightarrow> nat \<Rightarrow> string \<Rightarrow> error + entry" where
  "make_entry h i t =
     (case get_or (windspeed_10m h) i (Some 0) of
        None \<Rightarrow> Inl TypeError
      | Some w \<Rightarrow>
          Inr \<lparr>time = t,
               temp_c = get_or (temperature_2m h) i None,
               precip_mm = get_or (precipitation h) i (Some 0),
               pop = get_or (precipitation_probability h) i None,
               wind_mph = py_round_nd (w * 621371 / 1000000) 1,
               cloud = get_or (cloudcover h) i None,
               uv = get_or (uv_index h) i None\<rparr>)"

text \<open>Line 356; strings compare lexicographically, as Python's do.\<close>

definition in_window :: "string \<Rightarrow> string \<Rightarrow> string \<Rightarrow> bool" where
  "in_window start_local_iso end_local_iso t = (start_local_iso \<le> t \<and> t \<le> end_local_iso)"

text \<open>The loop of lines 358-370 over \<^verbatim>\<open>enumerate(times)\<close>, from index \<open>i\<close> on.\<close>

fun select_window ::
  "forecast_hourly \<Rightarrow> string \<Rightarrow> string \<Rightarrow> nat \<Rightarrow> string list \<Rightarrow> error + entry list" where
  "select_window h s e i [] = Inr []"
| "select_window h s e i (t # ts) =
     (if in_window s e t
      then (case make_entry h i t of
              Inl err \<Rightarrow> Inl err
            | Inr x \<Rightarrow>
                (case select_window h s e (i + 1) ts of
                   Inl err \<Rightarrow> Inl err
                 | Inr w \<Rightarrow> Inr (x # w)))
      else select_window h s e (i + 1) ts)"

text \<open>\<^verbatim>\<open>max(xs, default=None)\<close>\<close>

fun py_max :: "real list \<Rightarrow> real option" where
  "py_max [] = None"
| "py_max (x # xs) = Some (fold max xs x)"

definition max_wind :: "entry list \<Rightarrow> real" where
  "max_wind window = (case py_max (map wind_mph window) of None \<Rightarrow> 0 | Some m \<Rightarrow> m)"

text \<open>With a \<^verbatim>\<open>null\<close> precipitation sample in the window, \<^verbatim>\<open>max\<close> raises TypeError when it
  compares it, or returns it when it is the only sample, and then \<^verbatim>\<open>round(max_precip, 2)\<close>
  (line 469) raises TypeError.\<close>

definition max_precip :: "entry list \<Rightarrow> error + real" where
  "max_precip window =
     (case those (map precip_mm window) of
        None \<Rightarrow> Inl TypeError
      | Some ps \<Rightarrow> Inr (case py_max ps of None \<Rightarrow> 0 | Some m \<Rightarrow> m))"

definition max_pop :: "entry list \<Rightarrow> real option" where
  "max_pop window = py_max (List.map_filter pop window)"

text \<open>Lines 376 and 380. \<open>py_mean temps\<close> is \<^verbatim>\<open>sum(temps)/len(temps)\<close> as the interpreter
  computes it on floats: the sum is rounded (29.6, 34.7 and 31.7 can give
  32.00000000000001), and how depends on the interpreter's version. For a single temperature
  no rounding occurs: \<^verbatim>\<open>(0 + t)/1\<close> is \<^verbatim>\<open>t\<close>.\<close>

definition avg_temp_c :: "(real list \<Rightarrow> real) \<Rightarrow> entry list \<Rightarrow> real option" where
  "avg_temp_c py_mean window =
     (case List.map_filter temp_c window of
        [] \<Rightarrow> None
      | [t] \<Rightarrow> Some t
      | temps \<Rightarrow> Some (py_mean temps))"

definition max_uvi :: "entry list \<Rightarrow> real" where
  "max_uvi window = (case py_max (List.map_filter uv window) of None \<Rightarrow> 0 | Some m \<Rightarrow> m)"

datatype risk = Low | Moderate | High

text \<open>Lines 383-387.\<close>

definition precip_risk_of :: "real option \<Rightarrow> real \<Rightarrow> risk" where
  "precip_risk_of mpop mprecip =
     (if (case mpop of None \<Rightarrow> False | Some p \<Rightarrow> 60 \<le> p) \<or> 2 \<le> mprecip then High
      else if (case mpop of None \<Rightarrow> False | Some p \<Rightarrow> 30 \<le> p \<and> p < 60)
              \<or> (2 / 10 \<le> mprecip \<and> mprecip < 2) then Moderate
      else Low)"

text \<open>Lines 389-391.\<close>

definition wind_risk_of :: "real \<Rightarrow> risk" where
  "wind_risk_of mwind = (if 30 \<le> mwind then High else if 15 \<le> mwind then Moderate else Low)"

text \<open>Lines 394-399: \<^verbatim>\<open>(comfort_min_c, comfort_max_c)\<close>.\<close>

definition comfort_range :: "string \<Rightarrow> real \<times> real" where
  "comfort_range event_type =
     (if lower event_type \<in> set [''wedding'', ''outdoor gathering'', ''concert'', ''festival'',
                                  ''parade'', ''picnic''] then (12, 30)
      else if lower event_type \<in> set [''sports event'', ''hiking trip''] then (8, 32)
      else (10, 30))"

text \<open>Lines 401-406.\<close>

fun temp_risk_of :: "real option \<Rightarrow> real \<times> real \<Rightarrow> risk" where
  "temp_risk_of None (comfort_min_c, comfort_max_c) = Low"
| "temp_risk_of (Some a) (comfort_min_c, comfort_max_c) =
     (if a < comfort_min_c - 2 \<or> comfort_max_c + 2 < a then High
      else if a < comfort_min_c \<or> comfort_max_c < a then Moderate
      else Low)"

text \<open>Line 410.\<close>

definition uv_risk_of :: "real \<Rightarrow> risk" where
  "uv_risk_of muvi = (if muvi < 6 then Low else if muvi < 8 then Moderate else High)"

text \<open>Lines 415-430.\<close>

definition suggestions_of :: "risk \<Rightarrow> risk \<Rightarrow> risk \<Rightarrow> risk \<Rightarrow> string list" where
  "suggestions_of pr wr tr ur =
     (if pr = High then [''High rain risk: arrange shelter/tents'',
                         ''Consider shifting time to a drier hour'']
      else if pr = Moderate then [''Showers possible: bring umbrellas/ponchos''] else [])
     @ (if wr = High then [''Strong winds: secure structures, avoid lightweight canopies'']
        else if wr = Moderate then [''Breezy: secure signage/balloons''] else [])
     @ (if tr \<noteq> Low then [''Adjust dress code and hydration plan''] else [])
     @ (if ur \<noteq> Low then [''Provide sunscreen and shaded areas (UV elevated)''] else [])"

text \<open>Lines 433-439.\<close>

definition to_unit_c :: "real option \<Rightarrow> real option" where
  "to_unit_c val_c = map_option (\<lambda>v. py_round_nd v 1) val_c"

definition to_unit_f :: "real option \<Rightarrow> real option" where
  "to_unit_f val_c = map_option (\<lambda>v. py_round_nd (v * 9 / 5 + 32) 1) val_c"

text \<open>An entry of the \<^verbatim>\<open>'hourly'\<close> list of the result (lines 445-453).\<close>

record out_entry =
  out_time :: string
  out_temp :: "real option"
  out_precip_mm :: real
  out_pop :: "real option"
  out_wind_mph :: real
  out_cloud :: "real option"
  out_uv :: "real option"

definition window_out :: "bool \<Rightarrow> entry list \<Rightarrow> out_entry list" where
  "window_out is_c window =
     map (\<lambda>x. \<lparr>out_time = time x,
                out_temp = (if is_c then to_unit_c (temp_c x) else to_unit_f (temp_c x)),
                out_precip_mm = py_round_nd (case precip_mm x of None \<Rightarrow> 0 | Some q \<Rightarrow> q) 2,
                out_pop = pop x,
                out_wind_mph = wind_mph x,
                out_cloud = cloud x,
                out_uv = uv x\<rparr>) window"

text \<open>The result dict of lines 457-478, its nested dicts \<^verbatim>\<open>location\<close>, \<^verbatim>\<open>window\<close>, \<^verbatim>\<open>risks\<close>
  and \<^verbatim>\<open>metrics\<close> flattened: \<open>precip_risk\<close> is \<^verbatim>\<open>risks.precip\<close>, \<open>temp_risk\<close> is
  \<^verbatim>\<open>risks.temperature\<close>, and so on.\<close>

record advice =
  location_lat :: real
  location_lon :: real
  window_start :: string
  window_end :: string
  favorable :: bool
  summary :: string
  precip_risk :: risk
  wind_risk :: risk
  temp_risk :: risk
  uv_risk :: risk
  max_precip_mm :: real
  max_pop_percent :: "real option"
  max_wind_mph :: real
  avg_temp :: "real option"
  metrics_unit :: string
  hourly_out :: "out_entry list"
  suggestions :: "string list"
  advice_source :: string

datatype body = ErrorBody string | AdviceBody advice

definition no_data :: "body \<times> nat" where
  "no_data = (ErrorBody ''No forecast data for the selected window'', 200)"

definition failed :: "body \<times> nat" where
  "failed = (ErrorBody ''Failed to compute event advice'', 500)"

text \<open>Lines 375-478, for the non-empty window.\<close>

definition advise ::
  "(real list \<Rightarrow> real) \<Rightarrow> real \<Rightarrow> real \<Rightarrow> string \<Rightarrow> string \<Rightarrow> string \<Rightarrow> string \<Rightarrow> entry list \<Rightarrow> real
   \<Rightarrow> advice" where
  "advise py_mean lat lon start_local_iso end_local_iso unit_name event_type window mprecip =
     (let mwind = max_wind window;
          mpop = max_pop window;
          avg = avg_temp_c py_mean window;
          pr = precip_risk_of mpop mprecip;
          wr = wind_risk_of mwind;
          tr = temp_risk_of avg (comfort_range event_type);
          ur = uv_risk_of (max_uvi window);
          fav = (pr = Low \<and> wr = Low \<and> tr \<noteq> High);
          is_c = (lower unit_name = ''celsius'')
      in \<lparr>location_lat = lat,
          location_lon = lon,
          window_start = start_local_iso,
          window_end = end_local_iso,
          favorable = fav,
          summary = (if fav then ''Favorable'' else ''Not favorable''),
          precip_risk = pr,
          wind_risk = wr,
          temp_risk = tr,
          uv_risk = ur,
          max_precip_mm = py_round_nd mprecip 2,
          max_pop_percent = mpop,
          max_wind_mph = mwind,
          avg_temp = (if is_c then to_unit_c avg else to_unit_f avg),
          metrics_unit = (if is_c then unit_celsius else unit_fahrenheit),
          hourly_out = window_out is_c window,
          suggestions = suggestions_of pr wr tr ur,
          advice_source = ''Open-Meteo (forecast) + NASA POWER (current/historical)''\<rparr>)"

text \<open>\<open>resp\<close> is what \<^verbatim>\<open>requests.get(...).json()\<close> gave: an exception, or the \<^verbatim>\<open>hourly\<close>
  object of the body. Every exception ends in the handler of lines 479-481.\<close>

definition get_event_advice ::
  "(real list \<Rightarrow> real) \<Rightarrow> real \<Rightarrow> real \<Rightarrow> error + forecast_hourly \<Rightarrow> string \<Rightarrow> string \<Rightarrow> string
   \<Rightarrow> string \<Rightarrow> body \<times> nat" where
  "get_event_advice py_mean lat lon resp start_local_iso end_local_iso unit_name event_type =
     (case resp of
        Inl e \<Rightarrow> failed
      | Inr h \<Rightarrow>
          (case select_window h start_local_iso end_local_iso 0 (times h) of
             Inl e \<Rightarrow> failed
           | Inr window \<Rightarrow>
               if window = [] then no_data
               else (case max_precip window of
                       Inl e \<Rightarrow> failed
                     | Inr mprecip \<Rightarrow>
                         (AdviceBody (advise py_mean lat lon start_local_iso end_local_iso
                                        unit_name event_type window mprecip), 200))))"

section \<open>Example payloads\<close>


definition exact_inhg :: "real \<Rightarrow> real" where
  "exact_inhg x = py_round_nd (x * 2953 / 10000) 2"






text \<open>A temperature series given hour by hour, the later hour first, and the records the
  builder makes of it.\<close>

definition example_power :: "(string \<times> pydict) list" where
  "example_power = [(''T2M'', [(''2024010101'', PNum 12), (''2024010100'', PNum 10)])]"

definition example_rows :: "pydict list" where
  "example_rows =
     [[(''time'', PStr ''00''), (''temp'', PNum 50), (''icon'', PStr icon_clear),
       (''precipitation'', PNum 0), (''humidity'', PNum 60), (''wind'', PNum 0),
       (''feelsLike'', PNum 50), (''description'', PStr ''Clear''), (''pressure'', PNone),
       (''uvIndex'', PNum 0), (''dewPoint'', PNum 46)],
      [(''time'', PStr ''Now''), (''temp'', PNum 54), (''icon'', PStr icon_clear),
       (''precipitation'', PNum 0), (''humidity'', PNum 60), (''wind'', PNum 0),
       (''feelsLike'', PNum 54), (''description'', PStr ''Clear''), (''pressure'', PNone),
       (''uvIndex'', PNum 0), (''dewPoint'', PNum 50)]]"

section \<open>Facts about rounding and formatting\<close>

lemma py_round_err: "\<bar>of_int (py_round x) - x\<bar> \<le> 1 / 2"
  unfolding py_round_def Let_def by (auto simp: abs_if) linarith+

lemma py_round_of_int: "py_round (of_int n) = n"
  unfolding py_round_def Let_def by simp

lemma py_round_nd_idem: "py_round_nd (py_round_nd x n) n = py_round_nd x n"
  unfolding py_round_nd_def by (simp add: py_round_of_int)

lemma digit_char_values:
  "digit_char 0 = CHR ''0''" "digit_char 1 = CHR ''1''" "digit_char 2 = CHR ''2''"
  "digit_char 3 = CHR ''3''" "digit_char 4 = CHR ''4''" "digit_char 5 = CHR ''5''"
  "digit_char 6 = CHR ''6''" "digit_char 7 = CHR ''7''" "digit_char 8 = CHR ''8''"
  "digit_char 9 = CHR ''9''" "digit_char (Suc 0) = CHR ''1''"
  "digit_char (Suc (Suc 0)) = CHR ''2''"
  by code_simp+

lemma decimal_lt_10: "n < 10 \<Longrightarrow> decimal n = [digit_char n]"
  by (simp add: decimal.simps)

lemma fmt_02d_lt_100: "i < 100 \<Longrightarrow> fmt_02d i = [digit_char (i div 10), digit_char (i mod 10)]"
  by (subst fmt_02d_def, subst decimal.simps) (auto simp: Let_def decimal_lt_10 digit_char_values)

section \<open>Facts about the event advice\<close>






lemma get_event_advice_window:
  "select_window h s e 0 (times h) = Inr w \<Longrightarrow> w \<noteq> [] \<Longrightarrow> max_precip w = Inr mp
   \<Longrightarrow> get_event_advice py_mean lat lon (Inr h) s e u et
       = (AdviceBody (advise py_mean lat lon s e u et w mp), 200)"
  by (simp add: get_event_advice_def)


lemma select_window_empty:
  "\<forall>t\<in>set ts. \<not> in_window s e t \<Longrightarrow> select_window h s e i ts = Inr []"
  by (induction ts arbitrary: i) auto

lemma select_window_error:
  "select_window h s e i ts = Inl err
   \<Longrightarrow> \<exists>j<length ts. in_window s e (ts ! j) \<and> get_or (windspeed_10m h) (i + j) (Some 0) = None"
proof (induction ts arbitrary: i)
  case Nil
  then show ?case by simp
next
  case (Cons t ts)
  show ?case
  proof (cases "in_window s e t \<and> make_entry h i t = Inl err")
    case True
    then have "get_or (windspeed_10m h) (i + 0) (Some 0) = None"
      by (auto simp: make_entry_def split: option.splits)
    with True show ?thesis by (intro exI [of _ 0]) simp
  next
    case False
    with Cons.prems have "select_window h s e (i + 1) ts = Inl err"
      by (auto split: if_splits sum.splits)
    from Cons.IH [OF this] obtain j where
      "j < length ts" "in_window s e (ts ! j)"
      "get_or (windspeed_10m h) (i + 1 + j) (Some 0) = None"
      by blast
    then show ?thesis by (intro exI [of _ "Suc j"]) simp
  qed
qed

lemma select_window_precip:
  "select_window h s e i ts = Inr w \<Longrightarrow> x \<in> set w \<Longrightarrow> precip_mm x = None
   \<Longrightarrow> \<exists>j<length ts. in_window s e (ts ! j) \<and> get_or (precipitation h) (i + j) (Some 0) = None"
proof (induction ts arbitrary: i w)
  case Nil
  then show ?case by simp
next
  case (Cons t ts)
  show ?case
  proof (cases "in_window s e t")
    case False
    with Cons.prems have "select_window h s e (i + 1) ts = Inr w" by simp
    from Cons.IH [OF this Cons.prems(2,3)] obtain j where
      "j < length ts" "in_window s e (ts ! j)"
      "get_or (precipitation h) (i + 1 + j) (Some 0) = None"
      by blast
    then show ?thesis by (intro exI [of _ "Suc j"]) simp
  next
    case True
    with Cons.prems(1) obtain y w' where
      y: "make_entry h i t = Inr y" and w': "select_window h s e (i + 1) ts = Inr w'"
      and w: "w = y # w'"
      by (auto split: sum.splits)
    show ?thesis
    proof (cases "x = y")
      case True
      with y Cons.prems(3) have "get_or (precipitation h) (i + 0) (Some 0) = None"
        by (auto simp: make_entry_def split: option.splits)
      with \<open>in_window s e t\<close> show ?thesis by (intro exI [of _ 0]) simp
    next
      case False
      with w Cons.prems(2) have "x \<in> set w'" by simp
      from Cons.IH [OF w' this Cons.prems(3)] obtain j where
        "j < length ts" "in_window s e (ts ! j)"
        "get_or (precipitation h) (i + 1 + j) (Some 0) = None"
        by blast
      then show ?thesis by (intro exI [of _ "Suc j"]) simp
    qed
  qed
qed

lemma those_eq_None: "those xs = None \<Longrightarrow> None \<in> set xs"
  by (induction xs) (auto split: option.splits)

lemma max_precip_error:
  "max_precip w = Inl err \<Longrightarrow> \<exists>x\<in>set w. precip_mm x = None"
proof -
  assume "max_precip w = Inl err"
  then have "those (map precip_mm w) = None"
    by (auto simp: max_precip_def split: option.splits)
  from those_eq_None [OF this] show ?thesis by force
qed





lemma empty_window_no_data:
  "\<forall>t\<in>set (times h). \<not> (s \<le> t \<and> t \<le> e)
   \<Longrightarrow> get_event_advice py_mean lat lon (Inr h) s e u et
       = (ErrorBody ''No forecast data for the selected window'', 200)"
proof -
  assume "\<forall>t\<in>set (times h). \<not> (s \<le> t \<and> t \<le> e)"
  then have "select_window h s e 0 (times h) = Inr []"
    by (intro select_window_empty) (simp add: in_window_def)
  then show ?thesis
    by (simp add: get_event_advice_def no_data_def)
qed

lemma request_failure_is_500:
  "get_event_advice py_mean lat lon (Inl err) s e u et
   = (ErrorBody ''Failed to compute event advice'', 500)"
  by (simp add: get_event_advice_def failed_def)

lemma status_500_causes:
  assumes st: "snd (get_event_advice py_mean lat lon resp s e u et) = 500"
  shows "(\<exists>err. resp = Inl err)
     \<or> (\<exists>f j. resp = Inr f \<and> j < length (times f) \<and> s \<le> times f ! j \<and> times f ! j \<le> e
          \<and> (j < length (windspeed_10m f) \<and> windspeed_10m f ! j = None
             \<or> j < length (precipitation f) \<and> precipitation f ! j = None))"
proof (cases resp)
  case (Inl err')
  then show ?thesis by simp
next
  case (Inr f)
  have "\<exists>j<length (times f). in_window s e (times f ! j)
          \<and> (get_or (windspeed_10m f) j (Some 0) = None
             \<or> get_or (precipitation f) j (Some 0) = None)"
  proof (cases "select_window f s e 0 (times f)")
    case (Inl err')
    from select_window_error [OF this] show ?thesis by auto
  next
    case win: (Inr w)
    with st Inr obtain err' where "max_precip w = Inl err'"
      by (auto simp: get_event_advice_def no_data_def failed_def split: if_splits sum.splits)
    from max_precip_error [OF this] obtain x where "x \<in> set w" "precip_mm x = None"
      by blast
    from select_window_precip [OF win this] show ?thesis by auto
  qed
  then obtain j where "j < length (times f)" "in_window s e (times f ! j)"
    "get_or (windspeed_10m f) j (Some 0) = None \<or> get_or (precipitation f) j (Some 0) = None"
    by blast
  with Inr show ?thesis
    by (auto simp: in_window_def get_or_def split: if_splits)
qed


section \<open>Facts about the hourly builder\<close>

lemma build_rows_rows:
  "build_rows strf_label to_inhg series keys = Inr rows
   \<Longrightarrow> list_all2
         (\<lambda>k row. hourly_row (time_label strf_label k) to_inhg series k
                      (dict_get (series ''T2M'') k) = Inr row)
         (filter (\<lambda>k. dict_get (series ''T2M'') k \<notin> MISSING) keys) rows"
proof (induction keys arbitrary: rows)
  case Nil
  then show ?case by simp
next
  case (Cons key keys)
  show ?case
  proof (cases "dict_get (series ''T2M'') key \<in> MISSING")
    case True
    with Cons show ?thesis
      by (auto simp: in_MISSING_def split: if_splits)
  next
    case False
    with Cons.prems obtain row rows' where
      "hourly_row (time_label strf_label key) to_inhg series key
         (dict_get (series ''T2M'') key) = Inr row"
      "build_rows strf_label to_inhg series keys = Inr rows'" "rows = row # rows'"
      by (auto simp: in_MISSING_def split: if_splits sum.splits)
    with Cons.IH [of rows'] False show ?thesis by simp
  qed
qed

lemma list_all2_last: "list_all2 P xs ys \<Longrightarrow> xs \<noteq> [] \<Longrightarrow> P (last xs) (last ys)"
  by (induction rule: list_all2_induct) (auto simp: list_all2_Nil)

lemma last_label_now:
  "rows \<noteq> [] \<Longrightarrow> last (label_now rows) = AList.update ''time'' (PStr ''Now'') (last rows)"
  by (simp add: label_now_def)

lemma last_last_rows: "last_rows hours rows \<noteq> [] \<Longrightarrow> last (last_rows hours rows) = last rows"
  by (auto simp: last_rows_def split: if_splits)

lemma label_now_empty: "label_now rows = [] \<longleftrightarrow> rows = []"
  by (simp add: label_now_def)

lemma hourly_row_fields:
  assumes "hourly_row label to_inhg series key t2m = Inr row"
  shows "\<exists>tc. t2m = PNum tc \<and> map_of row ''time'' = Some (PStr label)
          \<and> map_of row ''temp'' = Some (PNum (of_int (to_display_f tc)))"
proof (cases t2m)
  case (PNum tc)
  with assms show ?thesis
    by (auto simp: hourly_row_def and_then_def Let_def split: sum.splits prod.splits)
qed (use assms in \<open>simp_all add: hourly_row_def and_then_def\<close>)

lemma sorted_all_keys: "sorted (all_keys p)"
  by (simp add: all_keys_def)

lemma set_all_keys:
  "set (all_keys p)
   = fst ` set (power_series p ''T2M'') \<union> fst ` set (power_series p ''PRECTOTCORR'')"
  by (simp add: all_keys_def)

lemma sorted_le_last: "sorted xs \<Longrightarrow> x \<in> set xs \<Longrightarrow> x \<le> last xs"
  by (induction xs) (auto split: if_splits)

section \<open>The examples evaluated\<close>

lemma lower_hiking: "lower ''Hiking Trip'' = ''hiking trip''"
  by code_simp


lemma lower_lowercase:
  "lower ''wedding'' = ''wedding''" "lower ''celsius'' = ''celsius''"
  "lower ''fahrenheit'' = ''fahrenheit''" "lower ''picnic'' = ''picnic''"
  by code_simp+




section \<open>Facts about the flattener\<close>

lemma update_fresh: "k \<notin> fst ` set al \<Longrightarrow> AList.update k v al = al @ [(k, v)]"
  by (induction al) auto

lemma digit_char_inj: "a < 10 \<Longrightarrow> b < 10 \<Longrightarrow> digit_char a = digit_char b \<Longrightarrow> a = b"
  by (simp add: digit_char_def char_of_eq_iff take_bit_eq_mod)

lemma fmt_02d_hour_key: "i < 100 \<Longrightarrow> k @ fmt_02d i = hour_key k i"
  by (simp add: fmt_02d_lt_100 hour_key_def)

lemma hour_key_inj:
  assumes "i < 100" "j < 100" "hour_key k i = hour_key k' j"
  shows "k = k' \<and> i = j"
proof -
  from assms(3) have k: "k = k'" and d: "digit_char (i div 10) = digit_char (j div 10)"
    "digit_char (i mod 10) = digit_char (j mod 10)"
    by (simp_all add: hour_key_def)
  from assms(1,2) have "i div 10 < 10" "j div 10 < 10" by simp_all
  with d(1) have "i div 10 = j div 10"
    using digit_char_inj [of "i div 10" "j div 10"] by simp
  moreover have "i mod 10 = j mod 10"
    using d(2) digit_char_inj [of "i mod 10" "j mod 10"] by simp
  ultimately have "i = j" by (metis div_mult_mod_eq)
  with k show ?thesis by simp
qed

lemma expand_day_append:
  "\<forall>j<length vs. hour_key k (i + j) \<notin> fst ` set out \<Longrightarrow> i + length vs \<le> 100
   \<Longrightarrow> expand_day k i vs out = out @ map (\<lambda>j. (hour_key k (i + j), vs ! j)) [0..<length vs]"
proof (induction vs arbitrary: i out)
  case Nil
  then show ?case by simp
next
  case (Cons v vs)
  from Cons.prems have i: "i < 100" by simp
  from Cons.prems(1) have "hour_key k (i + 0) \<notin> fst ` set out" by blast
  then have upd: "AList.update (k @ fmt_02d i) v out = out @ [(hour_key k i, v)]"
    using i by (simp add: fmt_02d_hour_key update_fresh)
  have fresh: "\<forall>j<length vs. hour_key k (i + 1 + j) \<notin> fst ` set (out @ [(hour_key k i, v)])"
  proof (intro allI impI)
    fix j assume j: "j < length vs"
    have "hour_key k (i + Suc j) \<notin> fst ` set out"
      using Cons.prems(1) [rule_format, of "Suc j"] j by simp
    moreover have "hour_key k (i + 1 + j) \<noteq> hour_key k i"
      using hour_key_inj [of "i + 1 + j" i k k] Cons.prems(2) j by auto
    ultimately show "hour_key k (i + 1 + j) \<notin> fst ` set (out @ [(hour_key k i, v)])"
      by simp
  qed
  from Cons.prems(2) have "i + 1 + length vs \<le> 100" by simp
  from Cons.IH [OF fresh this] upd show ?case
    by (simp add: map_upt_Suc del: upt_Suc)
qed

lemma day_entries_keys:
  "length vs = 24 \<Longrightarrow> fst ` set (day_entries k (PList vs)) = {hour_key k h | h. h < 24}"
proof -
  assume "length vs = 24"
  then have "fst ` set (day_entries k (PList vs)) = hour_key k ` {0..<24}"
    by (simp add: day_entries_def image_image)
  also have "\<dots> = {hour_key k h | h. h < 24}"
    by auto
  finally show ?thesis .
qed

lemma flatten_days_concat:
  "distinct (map fst items)
   \<Longrightarrow> \<forall>(k, v)\<in>set items. \<exists>vs. v = PList vs \<and> length vs = 24
   \<Longrightarrow> \<forall>(k, v)\<in>set items. \<forall>h<24. hour_key k h \<notin> fst ` set out
   \<Longrightarrow> flatten_days items out = out @ concat (map (\<lambda>(k, v). day_entries k v) items)"
proof (induction items arbitrary: out)
  case Nil
  then show ?case by simp
next
  case (Cons item items)
  obtain k v where item: "item = (k, v)" by (cases item)
  with Cons.prems(2) obtain vs where v: "v = PList vs" and len: "length vs = 24" by auto
  from Cons.prems(3) item have fresh: "\<forall>h<length vs. hour_key k (0 + h) \<notin> fst ` set out"
    using len by auto
  from len have "0 + length vs \<le> 100" by simp
  from expand_day_append [OF fresh this]
  have day: "expand_day k 0 vs out = out @ day_entries k (PList vs)"
    by (simp add: day_entries_def)
  have d: "distinct (map fst items)" and k: "k \<notin> fst ` set items"
    using Cons.prems(1) item by auto
  have l: "\<forall>(k, v)\<in>set items. \<exists>vs. v = PList vs \<and> length vs = 24"
    using Cons.prems(2) by auto
  have f': "hour_key k' h \<notin> fst ` set (out @ day_entries k (PList vs))"
    if in_items: "(k', v') \<in> set items" and h: "h < 24" for k' v' h
  proof
    assume "hour_key k' h \<in> fst ` set (out @ day_entries k (PList vs))"
    then consider "hour_key k' h \<in> fst ` set out"
      | "hour_key k' h \<in> fst ` set (day_entries k (PList vs))"
      by auto
    then show False
    proof cases
      case 1
      have "(k', v') \<in> set (item # items)" using in_items by simp
      from bspec [OF Cons.prems(3) this] h have "hour_key k' h \<notin> fst ` set out" by simp
      with 1 show False by simp
    next
      case 2
      with len obtain h' where "h' < 24" "hour_key k' h = hour_key k h'"
        by (auto simp: day_entries_keys)
      with hour_key_inj [of h h' k' k] h have "k' = k" by simp
      with in_items k show False by force
    qed
  qed
  then have f: "\<forall>(k', v')\<in>set items. \<forall>h<24.
      hour_key k' h \<notin> fst ` set (out @ day_entries k (PList vs))"
    by blast
  from Cons.IH [OF d l f] day item v show ?case by simp
qed

lemma distinct_expand_day:
  "distinct (map fst out) \<Longrightarrow> distinct (map fst (expand_day k i vs out))"
  by (induction vs arbitrary: i out) (simp_all add: distinct_update)

lemma distinct_flatten_days:
  "distinct (map fst out) \<Longrightarrow> distinct (map fst (flatten_days items out))"
proof (induction items arbitrary: out)
  case Nil
  then show ?case by simp
next
  case (Cons item items)
  obtain k v where "item = (k, v)" by (cases item)
  with Cons show ?case by (cases v) (simp_all add: distinct_expand_day)
qed

lemma distinct_flatten:
  "distinct (map fst d) \<Longrightarrow> distinct (map fst (flatten_hourly_series d))"
  by (auto simp: flatten_hourly_series_def distinct_flatten_days split: list.splits pyval.splits)

lemma flatten_all_days:
  assumes "distinct (map fst d)" and "\<forall>(k, v)\<in>set d. \<exists>vs. v = PList vs \<and> length vs = 24"
  shows "flatten_hourly_series d = concat (map (\<lambda>(k, v). day_entries k v) d)"
proof (cases d)
  case Nil
  then show ?thesis by (simp add: flatten_hourly_series_def)
next
  case (Cons item rest)
  with assms(2) obtain k vs where "item = (k, PList vs)" by (cases item) auto
  with Cons have "flatten_hourly_series d = flatten_days d []"
    by (simp add: flatten_hourly_series_def)
  also have "\<dots> = [] @ concat (map (\<lambda>(k, v). day_entries k v) d)"
    using assms by (intro flatten_days_concat) simp_all
  finally show ?thesis by simp
qed

lemma length_all_days:
  "\<forall>(k, v)\<in>set d. \<exists>vs. v = PList vs \<and> length vs = 24
   \<Longrightarrow> length (concat (map (\<lambda>(k, v). day_entries k v) d)) = 24 * length d"
  by (induction d) (auto simp: day_entries_def)

lemma keys_all_days:
  "\<forall>(k, v)\<in>set d. \<exists>vs. v = PList vs \<and> length vs = 24
   \<Longrightarrow> fst ` set (concat (map (\<lambda>(k, v). day_entries k v) d))
       = {hour_key k h | k h. k \<in> fst ` set d \<and> h < 24}"
proof (induction d)
  case Nil
  then show ?case by simp
next
  case (Cons item d)
  obtain k v where item: "item = (k, v)" by (cases item)
  with Cons.prems obtain vs where v: "v = PList vs" "length vs = 24" by auto
  from Cons have IH: "fst ` set (concat (map (\<lambda>(k, v). day_entries k v) d))
       = {hour_key k h | k h. k \<in> fst ` set d \<and> h < 24}"
    by simp
  have "fst ` set (concat (map (\<lambda>(k, v). day_entries k v) (item # d)))
      = {hour_key k h | h. h < 24} \<union> {hour_key k h | k h. k \<in> fst ` set d \<and> h < 24}"
    using item v IH day_entries_keys [of vs k] by (simp add: image_Un)
  also have "\<dots> = {hour_key k' h | k' h. k' \<in> fst ` set (item # d) \<and> h < 24}"
    using item by auto
  finally show ?case .
qed

lemma member_all_days:
  "(k, PList vs) \<in> set d \<Longrightarrow> h < length vs
   \<Longrightarrow> (hour_key k h, vs ! h) \<in> set (concat (map (\<lambda>(k, v). day_entries k v) d))"
  by (force simp: day_entries_def)

lemma flatten_scalars: "\<forall>(k, v)\<in>set d. \<not> is_list v \<Longrightarrow> flatten_hourly_series d = d"
proof (cases d)
  case Nil
  then show ?thesis by (simp add: flatten_hourly_series_def)
next
  case (Cons item rest)
  assume "\<forall>(k, v)\<in>set d. \<not> is_list v"
  with Cons obtain k v where "item = (k, v)" "\<not> is_list v" by (cases item) auto
  with Cons show ?thesis by (cases v) (simp_all add: flatten_hourly_series_def)
qed

lemma flatten_days_filter:
  "flatten_days items out = flatten_days (filter (\<lambda>(k, v). is_list v) items) out"
proof (induction items arbitrary: out)
  case Nil
  then show ?case by simp
next
  case (Cons item items)
  obtain k v where "item = (k, v)" by (cases item)
  with Cons show ?case by (cases v) simp_all
qed

lemma index_set_Suc: "{f j | j. j < Suc n} = insert (f 0) {f (Suc j) | j. j < n}"
proof -
  have "{f j | j. j < Suc n} = f ` {..<Suc n}" by auto
  also have "\<dots> = insert (f 0) (f ` Suc ` {..<n})"
    by (simp only: lessThan_Suc_eq_insert_0 image_insert)
  also have "f ` Suc ` {..<n} = {f (Suc j) | j. j < n}" by auto
  finally show ?thesis .
qed

lemma keys_expand_day:
  "fst ` set (expand_day k i vs out) = fst ` set out \<union> {k @ fmt_02d (i + j) | j. j < length vs}"
proof (induction vs arbitrary: i out)
  case Nil
  then show ?case by simp
next
  case (Cons v vs)
  have "{k @ fmt_02d (i + j) | j. j < length (v # vs)}
      = {k @ fmt_02d i} \<union> {k @ fmt_02d (i + 1 + j) | j. j < length vs}"
    using index_set_Suc [of "\<lambda>j. k @ fmt_02d (i + j)" "length vs"] by simp
  with Cons.IH [of "i + 1" "AList.update (k @ fmt_02d i) v out"] show ?case
    by (simp add: dom_update Un_assoc)
qed

lemma keys_flatten_days:
  "fst ` set (flatten_days items out)
   = fst ` set out \<union> {k @ fmt_02d i | k vs i. (k, PList vs) \<in> set items \<and> i < length vs}"
proof (induction items arbitrary: out)
  case Nil
  then show ?case by simp
next
  case (Cons item items)
  obtain k v where item: "item = (k, v)" by (cases item)
  show ?case
  proof (cases v)
    case (PList vs)
    have "{k' @ fmt_02d i | k' vs' i. (k', PList vs') \<in> set ((k, PList vs) # items) \<and> i < length vs'}
        = {k @ fmt_02d (0 + j) | j. j < length vs}
          \<union> {k' @ fmt_02d i | k' vs' i. (k', PList vs') \<in> set items \<and> i < length vs'}"
      by auto
    with Cons.IH [of "expand_day k 0 vs out"] item PList show ?thesis
      by (simp add: keys_expand_day Un_assoc)
  qed (use Cons.IH [of out] item in auto)
qed

section \<open>The claims\<close>

text \<open>
  C1. For every value \<open>v\<close> read from a series (null, a number or a string) and every fallback
  \<open>d\<close>, \<open>mv v d\<close> is \<open>d\<close> when \<open>v\<close> is one of the sentinels \<open>-999\<close>, \<open>-9999\<close>, \<open>-99\<close>, null, and is
  \<open>v\<close> itself for every other value, among them \<open>0\<close> and every negative number that is not a
  sentinel. So, for \<open>v\<close> other than \<open>d\<close>, the result is \<open>d\<close> exactly when \<open>v\<close> is a sentinel.
\<close>

theorem mv_default_iff_sentinel:
  "(v \<in> {PNum (- 999), PNum (- 9999), PNum (- 99), PNone} \<longrightarrow> mv v d = Inr d)
   \<and> (hashable v \<and> v \<notin> {PNum (- 999), PNum (- 9999), PNum (- 99), PNone} \<longrightarrow> mv v d = Inr v)
   \<and> mv (PNum 0) d = Inr (PNum 0)
   \<and> (x < 0 \<and> x \<notin> {- 999, - 9999, - 99} \<longrightarrow> mv (PNum x) d = Inr (PNum x))
   \<and> (hashable v \<and> v \<noteq> d \<longrightarrow>
        (mv v d = Inr d \<longleftrightarrow> v \<in> {PNum (- 999), PNum (- 9999), PNum (- 99), PNone}))"
  by (auto simp: mv_def in_MISSING_def MISSING_def)

theorem mv_default_iff_sentinel_witness:
  "mv (PNum (- 999)) (PNum 20) = Inr (PNum 20)
   \<and> mv PNone (PNum 20) = Inr (PNum 20)
   \<and> mv (PStr ''n/a'') (PNum 20) = Inr (PStr ''n/a'')
   \<and> mv (PNum (- 5)) (PNum 20) = Inr (PNum (- 5))
   \<and> mv (PNum (- 99)) (PNum 20) = Inr (PNum 20)"
  using mv_default_iff_sentinel [of "PNum (- 999)" "PNum 20" "- 5"]
    mv_default_iff_sentinel [of "PNone" "PNum 20" "- 5"]
    mv_default_iff_sentinel [of "PStr ''n/a''" "PNum 20" "- 5"]
    mv_default_iff_sentinel [of "PNum (- 99)" "PNum 20" "- 5"]
  by simp

subsection \<open>The shaper with a target other than Celsius\<close>

lemma convert_temp_False_idem:
  "convert_temp v False = Inr v' \<Longrightarrow> convert_temp v' False = Inr v'"
  by (cases v) (auto simp: py_round_nd_idem)

lemma convert_fields_stable:
  "convert_fields ks False d = Inr d'
   \<Longrightarrow> \<forall>k\<in>K. \<forall>v. map_of d k = Some v \<longrightarrow> convert_temp v False = Inr v
   \<Longrightarrow> \<forall>k\<in>K \<union> set ks. \<forall>v. map_of d' k = Some v \<longrightarrow> convert_temp v False = Inr v"
proof (induction ks arbitrary: d K)
  case Nil
  then show ?case by simp
next
  case (Cons k ks)
  show ?case
  proof (cases "map_of d k")
    case None
    with Cons.prems have run: "convert_fields ks False d = Inr d'" by simp
    from None Cons.prems(2)
    have "\<forall>j\<in>insert k K. \<forall>v. map_of d j = Some v \<longrightarrow> convert_temp v False = Inr v"
      by auto
    from Cons.IH [OF run this] show ?thesis by simp
  next
    case (Some v)
    show ?thesis
    proof (cases "v = PNone")
      case True
      with Some Cons.prems have run: "convert_fields ks False d = Inr d'" by simp
      from True Some Cons.prems(2)
      have "\<forall>j\<in>insert k K. \<forall>v. map_of d j = Some v \<longrightarrow> convert_temp v False = Inr v"
        by auto
      from Cons.IH [OF run this] show ?thesis by simp
    next
      case False
      with Some Cons.prems(1) obtain v' where
        conv: "convert_temp v False = Inr v'" and
        run: "convert_fields ks False (AList.update k v' d) = Inr d'"
        by (auto split: sum.splits)
      from convert_temp_False_idem [OF conv] Cons.prems(2)
      have "\<forall>j\<in>insert k K. \<forall>w. map_of (AList.update k v' d) j = Some w
              \<longrightarrow> convert_temp w False = Inr w"
        by (auto simp: update_conv')
      from Cons.IH [OF run this] show ?thesis by simp
    qed
  qed
qed

lemma convert_fields_fixed:
  "\<forall>k\<in>set ks. \<forall>v. map_of d k = Some v \<longrightarrow> convert_temp v False = Inr v
   \<Longrightarrow> convert_fields ks False d = Inr d"
  by (induction ks) (auto simp: update_triv split: option.splits)

lemma convert_fields_idem:
  assumes "convert_fields ks False d = Inr d'"
  shows "convert_fields ks False d' = Inr d'"
proof -
  from convert_fields_stable [OF assms, of "{}"]
  have "\<forall>k\<in>set ks. \<forall>v. map_of d' k = Some v \<longrightarrow> convert_temp v False = Inr v"
    by simp
  then show ?thesis by (rule convert_fields_fixed)
qed

lemma convert_entries_idem:
  "convert_entries ks False hs = Inr hs' \<Longrightarrow> convert_entries ks False hs' = Inr hs'"
  by (induction hs arbitrary: hs') (auto simp: convert_fields_idem split: sum.splits)

lemma if_present_idem:
  "(\<And>x y. f x = Inr y \<Longrightarrow> f y = Inr y) \<Longrightarrow> if_present f a = Inr b \<Longrightarrow> if_present f b = Inr b"
  by (cases a) (auto split: sum.splits)

text \<open>
  C2 (as amended). For every response object and every target unit other than celsius (in any
  letter case), a second application of the shaper with the same unit leaves the response of
  the first application as it is: the temperature fields, already rounded to one decimal,
  keep their values. With target celsius the shaper converts from Fahrenheit at every
  application, so this does not hold there.
\<close>

theorem shaper_idempotent_fahrenheit:
  assumes "lower unit_name \<noteq> ''celsius''"
    and "format_weather_response data unit_name = Inr data'"
  shows "format_weather_response data' unit_name = Inr data'"
proof -
  from assms obtain cur hrs fc where
    c: "if_present (convert_fields [''temp'', ''feelsLike'', ''dewPoint'', ''high'', ''low''] False)
          (current data) = Inr cur" and
    h: "if_present (convert_entries [''temp'', ''feelsLike'', ''dewPoint''] False) (hourly data)
          = Inr hrs" and
    f: "if_present (convert_entries [''high'', ''low''] False) (forecast data) = Inr fc" and
    d: "data' = data\<lparr>current := cur, hourly := hrs, forecast := fc, unit := Some unit_fahrenheit\<rparr>"
    by (auto simp: format_weather_response_def split: sum.splits)
  have "if_present (convert_fields [''temp'', ''feelsLike'', ''dewPoint'', ''high'', ''low''] False)
          cur = Inr cur"
    using c by (rule if_present_idem [rotated]) (rule convert_fields_idem)
  moreover have "if_present (convert_entries [''temp'', ''feelsLike'', ''dewPoint''] False) hrs
          = Inr hrs"
    using h by (rule if_present_idem [rotated]) (rule convert_entries_idem)
  moreover have "if_present (convert_entries [''high'', ''low''] False) fc = Inr fc"
    using f by (rule if_present_idem [rotated]) (rule convert_entries_idem)
  ultimately show ?thesis
    using assms(1) by (simp add: format_weather_response_def d)
qed

theorem shaper_idempotent_fahrenheit_witness:
  "lower ''fahrenheit'' \<noteq> ''celsius''
   \<and> format_weather_response
     \<lparr>location = ''Oslo'', current = Some [(''temp'', PNum (6826 / 100)), (''icon'', PStr ''x'')],
      hourly = Some [[(''temp'', PNum 50), (''dewPoint'', PNone)]], forecast = None,
      timestamp = ''now'', source = ''NASA POWER API'', unit = None\<rparr> ''fahrenheit''
   = Inr \<lparr>location = ''Oslo'',
          current = Some [(''temp'', PNum (683 / 10)), (''icon'', PStr ''x'')],
          hourly = Some [[(''temp'', PNum 50), (''dewPoint'', PNone)]], forecast = None,
          timestamp = ''now'', source = ''NASA POWER API'', unit = Some unit_fahrenheit\<rparr>
   \<and> format_weather_response
     \<lparr>location = ''Oslo'',
      current = Some [(''temp'', PNum (683 / 10)), (''icon'', PStr ''x'')],
      hourly = Some [[(''temp'', PNum 50), (''dewPoint'', PNone)]], forecast = None,
      timestamp = ''now'', source = ''NASA POWER API'', unit = Some unit_fahrenheit\<rparr> ''fahrenheit''
   = Inr \<lparr>location = ''Oslo'',
          current = Some [(''temp'', PNum (683 / 10)), (''icon'', PStr ''x'')],
          hourly = Some [[(''temp'', PNum 50), (''dewPoint'', PNone)]], forecast = None,
          timestamp = ''now'', source = ''NASA POWER API'', unit = Some unit_fahrenheit\<rparr>"
proof -
  have u: "lower ''fahrenheit'' \<noteq> ''celsius''"
    by (simp add: lower_lowercase)
  have once: "format_weather_response
     \<lparr>location = ''Oslo'', current = Some [(''temp'', PNum (6826 / 100)), (''icon'', PStr ''x'')],
      hourly = Some [[(''temp'', PNum 50), (''dewPoint'', PNone)]], forecast = None,
      timestamp = ''now'', source = ''NASA POWER API'', unit = None\<rparr> ''fahrenheit''
   = Inr \<lparr>location = ''Oslo'',
          current = Some [(''temp'', PNum (683 / 10)), (''icon'', PStr ''x'')],
          hourly = Some [[(''temp'', PNum 50), (''dewPoint'', PNone)]], forecast = None,
          timestamp = ''now'', source = ''NASA POWER API'', unit = Some unit_fahrenheit\<rparr>"
    using u by (simp add: format_weather_response_def py_round_nd_def py_round_def Let_def)
  from shaper_idempotent_fahrenheit [OF u once] u once show ?thesis by simp
qed

text \<open>
  C2 as stated fails for the target celsius: 68 degrees Fahrenheit become 20.0 at the first
  application, and the second application, which takes 20.0 for Fahrenheit again, makes it
  -6.7.
\<close>

theorem shaper_celsius_twice_counterexample:
  "format_weather_response
     \<lparr>location = ''Oslo'', current = Some [(''temp'', PNum 68)], hourly = None, forecast = None,
      timestamp = ''now'', source = ''NASA POWER API'', unit = None\<rparr> ''celsius''
   = Inr \<lparr>location = ''Oslo'', current = Some [(''temp'', PNum 20)], hourly = None,
          forecast = None, timestamp = ''now'', source = ''NASA POWER API'',
          unit = Some unit_celsius\<rparr>
   \<and> format_weather_response
     \<lparr>location = ''Oslo'', current = Some [(''temp'', PNum 20)], hourly = None, forecast = None,
      timestamp = ''now'', source = ''NASA POWER API'', unit = Some unit_celsius\<rparr> ''celsius''
   = Inr \<lparr>location = ''Oslo'', current = Some [(''temp'', PNum (- 67 / 10))], hourly = None,
          forecast = None, timestamp = ''now'', source = ''NASA POWER API'',
          unit = Some unit_celsius\<rparr>
   \<and> \<bar>(- 67 / 10) - (20::real)\<bar> > 1"
  by (simp add: format_weather_response_def lower_lowercase py_round_nd_def
      py_round_def Let_def)

text \<open>
  C3. For a dict (distinct keys) whose values are all lists of 24 elements, the flattener
  returns exactly 24 times the number of keys entries, with distinct keys: the keys are the
  day keys followed by the hour 00 to 23 in two digits, and the entry of day \<open>k\<close> and hour
  \<open>h\<close> holds the \<open>h\<close>-th element of the list of \<open>k\<close>. A dict of plain scalars is returned
  unchanged, and the empty dict gives the empty dict.
\<close>

theorem flatten_counts_and_keys:
  "(distinct (map fst d) \<and> (\<forall>(k, v)\<in>set d. \<exists>vs. v = PList vs \<and> length vs = 24) \<longrightarrow>
      length (flatten_hourly_series d) = 24 * length d
    \<and> distinct (map fst (flatten_hourly_series d))
    \<and> fst ` set (flatten_hourly_series d) = {hour_key k h | k h. k \<in> fst ` set d \<and> h < 24}
    \<and> (\<forall>k vs h. (k, PList vs) \<in> set d \<and> h < 24
          \<longrightarrow> map_of (flatten_hourly_series d) (hour_key k h) = Some (vs ! h)))
   \<and> ((\<forall>(k, v)\<in>set d. \<not> is_list v) \<longrightarrow> flatten_hourly_series d = d)
   \<and> flatten_hourly_series [] = []"
proof (intro conjI impI)
  assume a: "distinct (map fst d) \<and> (\<forall>(k, v)\<in>set d. \<exists>vs. v = PList vs \<and> length vs = 24)"
  then have dist: "distinct (map fst d)"
    and days: "\<forall>(k, v)\<in>set d. \<exists>vs. v = PList vs \<and> length vs = 24"
    by simp_all
  note eq = flatten_all_days [OF dist days]
  show "length (flatten_hourly_series d) = 24 * length d"
    unfolding eq by (rule length_all_days [OF days])
  show dist': "distinct (map fst (flatten_hourly_series d))"
    by (rule distinct_flatten [OF dist])
  show "fst ` set (flatten_hourly_series d) = {hour_key k h | k h. k \<in> fst ` set d \<and> h < 24}"
    unfolding eq by (rule keys_all_days [OF days])
  show "\<forall>k vs h. (k, PList vs) \<in> set d \<and> h < 24
          \<longrightarrow> map_of (flatten_hourly_series d) (hour_key k h) = Some (vs ! h)"
  proof (intro allI impI)
    fix k vs and h :: nat
    assume kv: "(k, PList vs) \<in> set d \<and> h < 24"
    with days have "length vs = 24" by auto
    with kv have "(hour_key k h, vs ! h) \<in> set (flatten_hourly_series d)"
      unfolding eq by (intro member_all_days) simp_all
    with dist' show "map_of (flatten_hourly_series d) (hour_key k h) = Some (vs ! h)"
      by simp
  qed
next
  assume "\<forall>(k, v)\<in>set d. \<not> is_list v"
  then show "flatten_hourly_series d = d" by (rule flatten_scalars)
next
  show "flatten_hourly_series [] = []" by (simp add: flatten_hourly_series_def)
qed

text \<open>Two days of 24 values give 48 entries, keyed by day and hour; a series that is already
  flat comes back as it is.\<close>

theorem flatten_counts_and_keys_witness:
  "length (flatten_hourly_series
      [(''20240101'', PList (map (\<lambda>n. PNum (real n)) [0..<24])),
       (''20240102'', PList (replicate 24 PNone))]) = 48
   \<and> map_of (flatten_hourly_series
      [(''20240101'', PList (map (\<lambda>n. PNum (real n)) [0..<24])),
       (''20240102'', PList (replicate 24 PNone))]) ''2024010107'' = Some (PNum 7)
   \<and> map_of (flatten_hourly_series
      [(''20240101'', PList (map (\<lambda>n. PNum (real n)) [0..<24])),
       (''20240102'', PList (replicate 24 PNone))]) ''2024010223'' = Some PNone
   \<and> flatten_hourly_series [(''2024010100'', PNum 3), (''2024010101'', PNone)]
       = [(''2024010100'', PNum 3), (''2024010101'', PNone)]"
proof -
  let ?d = "[(''20240101'', PList (map (\<lambda>n. PNum (real n)) [0..<24])),
             (''20240102'', PList (replicate 24 PNone))]"
  have pre: "distinct (map fst ?d) \<and> (\<forall>(k, v)\<in>set ?d. \<exists>vs. v = PList vs \<and> length vs = 24)"
    by simp
  from flatten_counts_and_keys [of ?d] pre
  have len: "length (flatten_hourly_series ?d) = 24 * length ?d"
    and vals: "\<forall>k vs h. (k, PList vs) \<in> set ?d \<and> h < 24
          \<longrightarrow> map_of (flatten_hourly_series ?d) (hour_key k h) = Some (vs ! h)"
    by blast+
  from vals have "map_of (flatten_hourly_series ?d) (hour_key ''20240101'' 7)
      = Some (map (\<lambda>n. PNum (real n)) [0..<24] ! 7)"
    by simp
  then have v7: "map_of (flatten_hourly_series ?d) ''2024010107'' = Some (PNum 7)"
    by (simp add: hour_key_def digit_char_values)
  from vals have "map_of (flatten_hourly_series ?d) (hour_key ''20240102'' 23)
      = Some (replicate 24 PNone ! 23)"
    by simp
  then have v23: "map_of (flatten_hourly_series ?d) ''2024010223'' = Some PNone"
    by (simp add: hour_key_def digit_char_values)
  have "(\<forall>(k, v)\<in>set [(''2024010100'', PNum 3), (''2024010101'', PNone)]. \<not> is_list v)"
    by simp
  with flatten_counts_and_keys [of "[(''2024010100'', PNum 3), (''2024010101'', PNone)]"]
  have flat: "flatten_hourly_series [(''2024010100'', PNum 3), (''2024010101'', PNone)]
       = [(''2024010100'', PNum 3), (''2024010101'', PNone)]"
    by blast
  from len v7 v23 flat show ?thesis by simp
qed

text \<open>
  C4. The classifier gives Rainy when the precipitation is at least 2 in hourly mode or at
  least 10 in daily mode, otherwise Light Rain when it is at least 0.2 (hourly) or at least
  1 (daily), and otherwise goes by the humidity: above 80 Cloudy, above 60 Partly Cloudy,
  else Clear, each with its icon. The temperature argument has no influence on the result.
\<close>

theorem classifier_bands:
  "get_weather_condition tc humidity p is_hourly =
     (if (is_hourly \<and> 2 \<le> p) \<or> (\<not> is_hourly \<and> 10 \<le> p) then (''Rainy'', icon_rainy)
      else if (is_hourly \<and> 2 / 10 \<le> p) \<or> (\<not> is_hourly \<and> 1 \<le> p)
        then (''Light Rain'', icon_light_rain)
      else if 80 < humidity then (''Cloudy'', icon_cloudy)
      else if 60 < humidity then (''Partly Cloudy'', icon_partly_cloudy)
      else (''Clear'', icon_clear))
   \<and> get_weather_condition tc humidity p is_hourly
       = get_weather_condition tc' humidity p is_hourly"
  by (simp add: get_weather_condition_def)

theorem classifier_bands_witness:
  "get_weather_condition 20 50 5 True = (''Rainy'', icon_rainy)
   \<and> get_weather_condition 20 85 0 True = (''Cloudy'', icon_cloudy)
   \<and> get_weather_condition 20 40 0 False = (''Clear'', icon_clear)
   \<and> get_weather_condition 20 70 5 False = (''Light Rain'', icon_light_rain)
   \<and> get_weather_condition 20 70 (1 / 2) False = (''Partly Cloudy'', icon_partly_cloudy)"
  using classifier_bands [of 20 50 5 True 0] classifier_bands [of 20 85 0 True 0]
    classifier_bands [of 20 40 0 False 0] classifier_bands [of 20 70 5 False 0]
    classifier_bands [of 20 70 "1 / 2" False 0]
  by simp





text \<open>
  C7. With a forecast that was fetched and no timestamp inside \<open>[start, end]\<close> the result is
  the no-data message with status 200 (\<open>empty_window_no_data\<close>), and a failed request gives
  status 500 (\<open>request_failure_is_500\<close>). But the status 500 is not confined to failed
  requests: here the forecast is fetched and decoded, the one hour of the window has a
  temperature, a wind and a probability, and its precipitation sample is null. The maximum
  of line 378 is then \<^verbatim>\<open>None\<close>, the comparison of line 384 raises TypeError, and the handler
  answers 500, although the null samples of the other series are skipped (lines 376, 379,
  409) and line 448 reads a null precipitation as 0.
\<close>

theorem null_precipitation_gives_500:
  "get_event_advice py_mean 47 8
     (Inr \<lparr>times = [''2025-07-05T09:00''], temperature_2m = [Some 20],
           precipitation = [None], precipitation_probability = [Some 10],
           windspeed_10m = [Some 10], cloudcover = [Some 50], uv_index = [Some 3]\<rparr>)
     ''2025-07-05T00:00'' ''2025-07-05T23:00'' ''fahrenheit'' ''picnic''
   = (ErrorBody ''Failed to compute event advice'', 500)"
  by (simp add: get_event_advice_def in_window_def make_entry_def get_or_def max_precip_def
      failed_def)

text \<open>
  C8. Whenever the hourly builder returns a list with at least one record, its last record is
  the record of the latest hour: the one built from the greatest time key whose temperature
  is not missing (the keys \<^verbatim>\<open>YYYYMMDDHH\<close> are ordered as strings, which is their order in
  time). It carries the temperature of that hour, and its \<open>time\<close> is \<open>Now\<close> in place of the
  label its time key gave.
\<close>

theorem last_record_is_now:
  assumes "get_power_hourly strf_label to_inhg fetched hours = Inr rows" and "rows \<noteq> []"
  shows "\<exists>p latest row tc.
      fetched = Inr (Some p)
    \<and> latest \<in> fst ` set (power_series p ''T2M'') \<union> fst ` set (power_series p ''PRECTOTCORR'')
    \<and> dict_get (power_series p ''T2M'') latest = PNum tc \<and> PNum tc \<notin> MISSING
    \<and> (\<forall>k\<in>fst ` set (power_series p ''T2M'') \<union> fst ` set (power_series p ''PRECTOTCORR'').
          dict_get (power_series p ''T2M'') k \<notin> MISSING \<longrightarrow> k \<le> latest)
    \<and> hourly_row (time_label strf_label latest) to_inhg (power_series p) latest (PNum tc)
        = Inr row
    \<and> map_of row ''time'' = Some (PStr (time_label strf_label latest))
    \<and> last rows = AList.update ''time'' (PStr ''Now'') row
    \<and> map_of (last rows) ''time'' = Some (PStr ''Now'')
    \<and> map_of (last rows) ''temp'' = Some (PNum (of_int (to_display_f tc)))"
proof -
  from assms obtain p all_rows where
    p: "fetched = Inr (Some p)"
    and built: "build_rows strf_label to_inhg (power_series p) (all_keys p) = Inr all_rows"
    and rows: "rows = label_now (last_rows hours all_rows)"
    by (auto simp: get_power_hourly_def split: sum.splits option.splits)
  let ?t2m = "\<lambda>k. dict_get (power_series p ''T2M'') k"
  let ?valid = "filter (\<lambda>k. ?t2m k \<notin> MISSING) (all_keys p)"
  from assms(2) rows have sliced: "last_rows hours all_rows \<noteq> []"
    by (simp add: label_now_empty)
  then have ne: "all_rows \<noteq> []"
    by (auto simp: last_rows_def split: if_splits)
  from rows sliced have last: "last rows = AList.update ''time'' (PStr ''Now'') (last all_rows)"
    by (simp add: last_label_now last_last_rows)
  note all2 = build_rows_rows [OF built]
  from all2 ne have valid_ne: "?valid \<noteq> []"
    by (auto simp: list_all2_Nil)
  define latest where "latest = last ?valid"
  from valid_ne have "latest \<in> set ?valid"
    unfolding latest_def by (rule last_in_set)
  then have in_keys: "latest \<in> set (all_keys p)" and not_missing: "?t2m latest \<notin> MISSING"
    by simp_all
  have "sorted ?valid"
    by (intro sorted_wrt_filter sorted_all_keys)
  then have greatest: "\<forall>k\<in>set (all_keys p). ?t2m k \<notin> MISSING \<longrightarrow> k \<le> latest"
    unfolding latest_def by (auto intro: sorted_le_last)
  from list_all2_last [OF all2 valid_ne]
  have row: "hourly_row (time_label strf_label latest) to_inhg (power_series p) latest
      (?t2m latest) = Inr (last all_rows)"
    unfolding latest_def .
  from hourly_row_fields [OF row] obtain tc where
    tc: "?t2m latest = PNum tc"
    and label: "map_of (last all_rows) ''time'' = Some (PStr (time_label strf_label latest))"
    and temp: "map_of (last all_rows) ''temp'' = Some (PNum (of_int (to_display_f tc)))"
    by blast
  have now: "map_of (last rows) ''time'' = Some (PStr ''Now'')"
    unfolding last by (simp add: update_conv')
  have temp': "map_of (last rows) ''temp'' = Some (PNum (of_int (to_display_f tc)))"
    unfolding last using temp by (simp add: update_conv')
  have keys: "latest \<in> fst ` set (power_series p ''T2M'')
      \<union> fst ` set (power_series p ''PRECTOTCORR'')"
    using in_keys by (simp add: set_all_keys)
  have greatest': "\<forall>k\<in>fst ` set (power_series p ''T2M'')
      \<union> fst ` set (power_series p ''PRECTOTCORR'').
          dict_get (power_series p ''T2M'') k \<notin> MISSING \<longrightarrow> k \<le> latest"
    using greatest by (simp add: set_all_keys)
  have t1: "dict_get (power_series p ''T2M'') latest = PNum tc" by (rule tc)
  have t2: "PNum tc \<notin> MISSING" using not_missing tc by simp
  have row': "hourly_row (time_label strf_label latest) to_inhg (power_series p) latest (PNum tc)
        = Inr (last all_rows)"
    using row tc by simp
  show ?thesis
    by (intro exI [of _ p] exI [of _ latest] exI [of _ "last all_rows"] exI [of _ tc] conjI)
      (fact p keys t1 t2 greatest' row' label last now temp')+
qed

text \<open>The later hour comes first in the payload and last in the list: the record of hour 01
  (12 degrees Celsius, 54 Fahrenheit) is the one labelled \<open>Now\<close>.\<close>

theorem last_record_is_now_witness:
  "(get_power_hourly (\<lambda>k. None) exact_inhg (Inr (Some example_power)) 24 = Inr example_rows
    \<and> example_rows \<noteq> []
    \<and> (\<exists>p latest row tc.
      (Inr (Some example_power) :: error + (string \<times> pydict) list option) = Inr (Some p)
    \<and> latest \<in> fst ` set (power_series p ''T2M'') \<union> fst ` set (power_series p ''PRECTOTCORR'')
    \<and> dict_get (power_series p ''T2M'') latest = PNum tc \<and> PNum tc \<notin> MISSING
    \<and> (\<forall>k\<in>fst ` set (power_series p ''T2M'') \<union> fst ` set (power_series p ''PRECTOTCORR'').
          dict_get (power_series p ''T2M'') k \<notin> MISSING \<longrightarrow> k \<le> latest)
    \<and> hourly_row (time_label (\<lambda>k. None) latest) exact_inhg (power_series p) latest (PNum tc)
        = Inr row
    \<and> map_of row ''time'' = Some (PStr (time_label (\<lambda>k. None) latest))
    \<and> last example_rows = AList.update ''time'' (PStr ''Now'') row
    \<and> map_of (last example_rows) ''time'' = Some (PStr ''Now'')
    \<and> map_of (last example_rows) ''temp'' = Some (PNum (of_int (to_display_f tc)))))
   \<and> (map_of (last example_rows) ''temp'' = Some (PNum 54)
      \<and> map_of (hd example_rows) ''time'' = Some (PStr ''00''))"
proof -
  have run: "get_power_hourly (\<lambda>k. None) exact_inhg (Inr (Some example_power)) 24
      = Inr example_rows"
    by (simp add: get_power_hourly_def power_series_def all_keys_def example_power_def
        example_rows_def flatten_hourly_series_def in_MISSING_def MISSING_def dict_get_def
        last_rows_def label_now_def hourly_row_def time_label_def num_or_def mv_def
        and_then_def pressure_inhg_def to_display_f_def py_round_def py_round_nd_def
        get_weather_condition_def Let_def)
  have ne: "example_rows \<noteq> []"
    by (simp add: example_rows_def)
  have more: "map_of (last example_rows) ''temp'' = Some (PNum 54)
      \<and> map_of (hd example_rows) ''time'' = Some (PStr ''00'')"
    by (simp add: example_rows_def)
  show ?thesis
    by (rule conjI [OF conjI [OF run conjI [OF ne last_record_is_now [OF run ne]]] more])
qed

text \<open>
  C9. A Celsius temperature converted to Fahrenheit for display (rounded to an integer) and
  converted back by the shaper (rounded to one decimal) is within 1 degree of the original.
\<close>

theorem celsius_round_trip:
  "\<exists>c'. convert_temp (PNum (of_int (to_display_f c))) True = Inr (PNum c') \<and> \<bar>c' - c\<bar> \<le> 1"
proof -
  define y where "y = c * 9 / 5 + 32"
  define F where "F = (of_int (to_display_f c) :: real)"
  define x where "x = (F - 32) * 5 / 9"
  have near_F: "\<bar>F - y\<bar> \<le> 1 / 2"
    unfolding F_def y_def to_display_f_def by (rule py_round_err)
  have "\<bar>of_int (py_round (x * 10)) - x * 10\<bar> \<le> 1 / 2"
    by (rule py_round_err)
  then have near_x: "\<bar>py_round_nd x 1 - x\<bar> \<le> 1 / 20"
    unfolding py_round_nd_def by (simp add: abs_if field_simps split: if_splits)
  have "x - c = (F - y) * 5 / 9"
    unfolding x_def y_def by (simp add: field_simps)
  with near_F near_x have "\<bar>py_round_nd x 1 - c\<bar> \<le> 1"
    by (simp add: abs_if field_simps split: if_splits)
  then show ?thesis
    unfolding x_def F_def by simp
qed

text \<open>
  C10. When the input is not empty and its first value is a list, the entries whose value is
  not a list are left out: the output is the one the flattener gives for the input without
  them, its keys are exactly the keys generated from the list-valued entries (day key and
  zero-padded index), and the key of a scalar entry is absent from the output unless it
  happens to be one of those generated keys.
\<close>

theorem flatten_omits_scalars:
  assumes "d = (k0, PList vs0) # rest"
  shows "flatten_hourly_series d = flatten_hourly_series (filter (\<lambda>(k, v). is_list v) d)
    \<and> fst ` set (flatten_hourly_series d)
        = {k @ fmt_02d i | k vs i. (k, PList vs) \<in> set d \<and> i < length vs}
    \<and> (\<forall>k v. (k, v) \<in> set d \<and> \<not> is_list v
          \<and> k \<notin> {k' @ fmt_02d i | k' vs i. (k', PList vs) \<in> set d \<and> i < length vs}
          \<longrightarrow> map_of (flatten_hourly_series d) k = None)"
proof -
  have run: "flatten_hourly_series d = flatten_days d []"
    using assms by (simp add: flatten_hourly_series_def)
  have "flatten_hourly_series (filter (\<lambda>(k, v). is_list v) d)
      = flatten_days (filter (\<lambda>(k, v). is_list v) d) []"
    using assms by (simp add: flatten_hourly_series_def)
  with run have 1: "flatten_hourly_series d
      = flatten_hourly_series (filter (\<lambda>(k, v). is_list v) d)"
    using flatten_days_filter [of d "[]"] by simp
  have 2: "fst ` set (flatten_hourly_series d)
        = {k @ fmt_02d i | k vs i. (k, PList vs) \<in> set d \<and> i < length vs}"
    unfolding run by (simp add: keys_flatten_days)
  have 3: "\<forall>k v. (k, v) \<in> set d \<and> \<not> is_list v
          \<and> k \<notin> {k' @ fmt_02d i | k' vs i. (k', PList vs) \<in> set d \<and> i < length vs}
          \<longrightarrow> map_of (flatten_hourly_series d) k = None"
    unfolding 2 [symmetric] by (simp add: map_of_eq_None_iff)
  from 1 2 3 show ?thesis by (intro conjI)
qed

text \<open>A day list followed by two scalar entries: only the day is in the output.\<close>

theorem flatten_omits_scalars_witness:
  "flatten_hourly_series
      [(''20240101'', PList [PNum 1, PNum 2]), (''note'', PStr ''x''), (''20240102'', PNum 5)]
    = flatten_hourly_series [(''20240101'', PList [PNum 1, PNum 2])]
   \<and> flatten_hourly_series
      [(''20240101'', PList [PNum 1, PNum 2]), (''note'', PStr ''x''), (''20240102'', PNum 5)]
    = [(''2024010100'', PNum 1), (''2024010101'', PNum 2)]
   \<and> map_of (flatten_hourly_series
      [(''20240101'', PList [PNum 1, PNum 2]), (''note'', PStr ''x''), (''20240102'', PNum 5)])
        ''20240102'' = None"
proof -
  let ?d = "[(''20240101'', PList [PNum 1, PNum 2]), (''note'', PStr ''x''),
             (''20240102'', PNum 5)]"
  from flatten_omits_scalars [OF refl, of "''20240101''" "[PNum 1, PNum 2]"
      "[(''note'', PStr ''x''), (''20240102'', PNum 5)]"]
  have same: "flatten_hourly_series ?d
      = flatten_hourly_series (filter (\<lambda>(k, v). is_list v) ?d)"
    by (rule conjunct1)
  then have omitted: "flatten_hourly_series ?d
      = flatten_hourly_series [(''20240101'', PList [PNum 1, PNum 2])]"
    by simp
  have "flatten_hourly_series [(''20240101'', PList [PNum 1, PNum 2])]
      = [(''2024010100'', PNum 1), (''2024010101'', PNum 2)]"
    by (simp add: flatten_hourly_series_def fmt_02d_lt_100 digit_char_values)
  with omitted have out: "flatten_hourly_series ?d
      = [(''2024010100'', PNum 1), (''2024010101'', PNum 2)]"
    by simp
  then have "map_of (flatten_hourly_series ?d) ''20240102'' = None"
    by simp
  with omitted out show ?thesis by simp
qed

end
